theory Spec2Isabelle
  imports Main
begin

section \<open>Data model of the call client (script.js)\<close>

text \<open>
  The client keeps its call state in module-level variables (\<open>inCall\<close>, \<open>localStream\<close>,
  \<open>peerConnections\<close>, the device flags) and changes it from DOM and socket event
  handlers. The model is explicit state passing over one record holding those variables,
  the parts of the DOM the handlers read back (visibility of the call interface and of
  the incoming-call box, the remote video elements and their volume) and logs of the
  calls made on outside objects: \<open>socket.emit\<close>, \<open>alert\<close>, \<open>track.stop()\<close>, \<open>pc.close()\<close>.
  Styling of buttons and toggles (\<open>updateCallButtons\<close>, \<open>syncSettingsToggles\<close>) is
  computed from the flags and never read back, so it is left out, as is console logging.
\<close>

type_synonym socket_id = string
type_synonym sdp = string
type_synonym candidate = string

datatype track_kind = Audio | Video

record track =
  trackId :: nat
  kind :: track_kind
  enabled :: bool

type_synonym media_stream = "track list"

definition getAudioTracks :: "media_stream \<Rightarrow> track list" where
  "getAudioTracks st = filter (\<lambda>t. kind t = Audio) st"

definition getVideoTracks :: "media_stream \<Rightarrow> track list" where
  "getVideoTracks st = filter (\<lambda>t. kind t = Video) st"

text \<open>
  \<open>navigator.mediaDevices.getUserMedia\<close> is the outside media service: its promise either
  rejects or resolves to a stream. Each \<open>async\<close> function that awaits it takes the outcome
  as an argument.
\<close>

datatype media = Denied | Granted media_stream

text \<open>
  An \<open>RTCPeerConnection\<close> as far as the client drives it: the tracks handed to
  \<open>addTrack\<close>, whether \<open>createOffer\<close> was called on it (the initiator role), the two
  descriptions, the candidates handed to \<open>addIceCandidate\<close> in order, and the number of
  \<open>restartIce\<close> calls.
\<close>

record peer_connection =
  senders :: "nat list"
  createOfferCalled :: bool
  localDescription :: "sdp option"
  remoteDescription :: "sdp option"
  addIceCandidateCalls :: "candidate list"
  restartIceCalls :: nat

record caller =
  callerId :: nat
  username :: string
  socketId :: socket_id

datatype relay_msg =
    JoinVoiceChannel string nat
  | LeaveVoiceChannel string
  | Offer socket_id sdp
  | Answer socket_id sdp
  | IceCandidate socket_id candidate
  | VideoToggle socket_id bool
  | InitiateCall nat string caller
  | AcceptCall socket_id caller
  | RejectCall socket_id
  | EndCall socket_id

datatype call_details =
    OutgoingDetails nat string
  | IncomingDetails socket_id string

datatype ice_state = IceNew | IceChecking | IceConnected | IceCompleted
  | IceFailed | IceDisconnected | IceClosed

datatype error = MediaAcquisitionError

text \<open>
  \<open>peerConnections\<close> is a JavaScript object used as a dictionary from socket id to
  connection; \<open>Object.keys\<close> and \<open>Object.values\<close> walk it in insertion order, so it is an
  association list, read with \<open>map_of\<close>. Its keys are the relay's socket ids, which are
  never property names inherited from \<open>Object.prototype\<close>.
\<close>

record app =
  inCall :: bool
  localStream :: "media_stream option"
  screenStream :: "media_stream option"
  peerConnections :: "(socket_id \<times> peer_connection) list"
  isVideoEnabled :: bool
  isAudioEnabled :: bool
  isMuted :: bool
  preferredMicEnabled :: bool
  isDeafened :: bool
  currentChannel :: string
  currentUser :: caller
  socketConnected :: bool
  currentCallDetails :: "call_details option"
  callInterfaceHidden :: bool
  callChannelName :: string
  incomingCallHidden :: bool
  incomingCallButtons :: "(caller \<times> string) option"
  ringTimers :: "(nat \<times> caller) list"
  participants :: "socket_id list"
  remoteVideos :: "(socket_id \<times> nat) list"
  emitted :: "relay_msg list"
  alerts :: "string list"
  stoppedTracks :: "nat list"
  closedConnections :: "socket_id list"

text \<open>The state after the script's top-level declarations, for a logged-in user.\<close>

definition initial :: "caller \<Rightarrow> app" where
  "initial me = \<lparr> inCall = False, localStream = None, screenStream = None,
     peerConnections = [], isVideoEnabled = True, isAudioEnabled = True, isMuted = False,
     preferredMicEnabled = True, isDeafened = False, currentChannel = ''general'',
     currentUser = me, socketConnected = True, currentCallDetails = None,
     callInterfaceHidden = True, callChannelName = [], incomingCallHidden = True,
     incomingCallButtons = None, ringTimers = [], participants = [], remoteVideos = [],
     emitted = [], alerts = [], stoppedTracks = [], closedConnections = [] \<rparr>"

section \<open>Peer connections\<close>

definition newPeerConnection :: "media_stream option \<Rightarrow> bool \<Rightarrow> peer_connection" where
  "newPeerConnection ls isInitiator =
     \<lparr> senders = (case ls of
                    None \<Rightarrow> []
                  | Some st \<Rightarrow> map trackId (getAudioTracks st) @ map trackId (getVideoTracks st)),
       createOfferCalled = isInitiator,
       localDescription = None,
       remoteDescription = None,
       addIceCandidateCalls = [],
       restartIceCalls = 0 \<rparr>"

text \<open>
  \<open>createPeerConnection(remoteSocketId, isInitiator)\<close>: returns the stored connection when
  the id has one; otherwise builds one, stores it under the id, adds the local audio
  tracks and then the local video tracks, and calls \<open>createOffer\<close> when \<open>isInitiator\<close>.
\<close>

definition createPeerConnection :: "socket_id \<Rightarrow> bool \<Rightarrow> app \<Rightarrow> app \<times> peer_connection" where
  "createPeerConnection remoteSocketId isInitiator s =
     (case map_of (peerConnections s) remoteSocketId of
        Some pc \<Rightarrow> (s, pc)
      | None \<Rightarrow>
          (let pc = newPeerConnection (localStream s) isInitiator
           in (s\<lparr>peerConnections := peerConnections s @ [(remoteSocketId, pc)]\<rparr>, pc)))"

definition updateConnection ::
  "socket_id \<Rightarrow> (peer_connection \<Rightarrow> peer_connection)
     \<Rightarrow> (socket_id \<times> peer_connection) list \<Rightarrow> (socket_id \<times> peer_connection) list" where
  "updateConnection k f pcs = map (\<lambda>(k', pc). if k' = k then (k', f pc) else (k', pc)) pcs"

definition deleteConnection ::
  "socket_id \<Rightarrow> (socket_id \<times> peer_connection) list \<Rightarrow> (socket_id \<times> peer_connection) list" where
  "deleteConnection k pcs = filter (\<lambda>(k', pc). k' \<noteq> k) pcs"

text \<open>
  The promise chain started by \<open>pc.createOffer()\<close>, at its resolution with the offer: the
  offer becomes the local description and is sent to the remote id.
\<close>

definition offerCreated :: "socket_id \<Rightarrow> sdp \<Rightarrow> app \<Rightarrow> app" where
  "offerCreated remoteSocketId offer s =
     (case map_of (peerConnections s) remoteSocketId of
        None \<Rightarrow> s
      | Some pc \<Rightarrow>
          if createOfferCalled pc
          then s\<lparr>peerConnections :=
                   updateConnection remoteSocketId (\<lambda>p. p\<lparr>localDescription := Some offer\<rparr>)
                     (peerConnections s),
                 emitted := emitted s @ [Offer remoteSocketId offer]\<rparr>
          else s)"

text \<open>\<open>pc.oniceconnectionstatechange\<close>: on \<open>failed\<close> the handler calls \<open>pc.restartIce()\<close>.\<close>

definition onIceConnectionStateChange :: "socket_id \<Rightarrow> ice_state \<Rightarrow> app \<Rightarrow> app" where
  "onIceConnectionStateChange remoteSocketId st s =
     (if st = IceFailed
      then s\<lparr>peerConnections :=
               updateConnection remoteSocketId
                 (\<lambda>p. p\<lparr>restartIceCalls := restartIceCalls p + 1\<rparr>) (peerConnections s)\<rparr>
      else s)"

text \<open>
  \<open>pc.ontrack\<close>: the first track from a remote id adds its participant box and its video
  element, whose volume is 0 when deafened and 1 otherwise.
\<close>

definition onTrack :: "socket_id \<Rightarrow> app \<Rightarrow> app" where
  "onTrack remoteSocketId s =
     (if remoteSocketId \<in> set (participants s) then s
      else s\<lparr>participants := participants s @ [remoteSocketId],
             remoteVideos := remoteVideos s @ [(remoteSocketId, if isDeafened s then 0 else 1)]\<rparr>)"

section \<open>Device state\<close>

definition setAudioEnabled :: "bool \<Rightarrow> media_stream \<Rightarrow> media_stream" where
  "setAudioEnabled b st = map (\<lambda>t. if kind t = Audio then t\<lparr>enabled := b\<rparr> else t) st"

definition setVideoEnabled :: "bool \<Rightarrow> media_stream \<Rightarrow> media_stream" where
  "setVideoEnabled b st = map (\<lambda>t. if kind t = Video then t\<lparr>enabled := b\<rparr> else t) st"

text \<open>
  \<open>setMicrophoneState(enabled, {skipPreferenceUpdate})\<close>: every local audio track gets
  \<open>enabled && !isDeafened\<close>.
\<close>

definition setMicrophoneState :: "bool \<Rightarrow> bool \<Rightarrow> app \<Rightarrow> app" where
  "setMicrophoneState en skipPreferenceUpdate s =
     (let s1 = (if \<not> skipPreferenceUpdate then s\<lparr>preferredMicEnabled := en\<rparr> else s);
          s2 = s1\<lparr>isAudioEnabled := en, isMuted := \<not> en\<rparr>
      in case localStream s2 of
           None \<Rightarrow> s2
         | Some st \<Rightarrow> s2\<lparr>localStream := Some (setAudioEnabled (en \<and> \<not> isDeafened s2) st)\<rparr>)"

text \<open>
  \<open>setCameraState(enabled)\<close>: sets the video tracks and tells every connected peer, one
  \<open>video-toggle\<close> per key of \<open>peerConnections\<close>, when the socket is connected.
\<close>

definition setCameraState :: "bool \<Rightarrow> app \<Rightarrow> app" where
  "setCameraState en s =
     (let s1 = s\<lparr>isVideoEnabled := en\<rparr>;
          s2 = (case localStream s1 of
                  None \<Rightarrow> s1
                | Some st \<Rightarrow> s1\<lparr>localStream := Some (setVideoEnabled en st)\<rparr>)
      in if socketConnected s2
         then s2\<lparr>emitted := emitted s2 @ map (\<lambda>k. VideoToggle k en) (map fst (peerConnections s2))\<rparr>
         else s2)"

text \<open>
  \<open>setSpeakerState(enabled)\<close>: \<open>enabled = false\<close> is deafening. Every remote video element
  gets volume 1 or 0; deafening switches the microphone off without touching the stored
  preference, undeafening switches it to the stored preference.
\<close>

definition setSpeakerState :: "bool \<Rightarrow> app \<Rightarrow> app" where
  "setSpeakerState en s =
     (let s1 = s\<lparr>isDeafened := \<not> en,
                 remoteVideos := map (\<lambda>(k, v). (k, if en then 1 else 0)) (remoteVideos s)\<rparr>
      in if \<not> en then setMicrophoneState False True s1
         else setMicrophoneState (preferredMicEnabled s1) False s1)"

definition toggleVideo :: "app \<Rightarrow> app" where
  "toggleVideo s = setCameraState (\<not> isVideoEnabled s) s"

definition toggleAudio :: "app \<Rightarrow> app" where
  "toggleAudio s = setMicrophoneState (\<not> isAudioEnabled s) False s"

section \<open>Voice channels\<close>

text \<open>
  \<open>leaveVoiceChannel(force)\<close>: nothing when not in a call. Forced: stops the tracks of the
  local and of the screen stream and drops both, sends \<open>leave-voice-channel\<close> when the
  socket is connected, closes every connection and empties the table, clears the remote
  participants, and resets the device flags. Forced or not, the call interface is hidden.
\<close>

definition leaveVoiceChannel :: "bool \<Rightarrow> app \<Rightarrow> app" where
  "leaveVoiceChannel force s =
     (if \<not> inCall s then s
      else
        (let s1 =
               (if force
                then s\<lparr>inCall := False,
                       stoppedTracks := stoppedTracks s
                          @ (case localStream s of None \<Rightarrow> [] | Some st \<Rightarrow> map trackId st)
                          @ (case screenStream s of None \<Rightarrow> [] | Some st \<Rightarrow> map trackId st),
                       localStream := None,
                       screenStream := None,
                       emitted := (if socketConnected s
                                   then emitted s @ [LeaveVoiceChannel (currentChannel s)]
                                   else emitted s),
                       closedConnections := closedConnections s @ map fst (peerConnections s),
                       peerConnections := [],
                       participants := [],
                       remoteVideos := []\<rparr>
                else s);
             s2 = s1\<lparr>callInterfaceHidden := True\<rparr>
         in if force
            then s2\<lparr>isVideoEnabled := True, isAudioEnabled := True, isMuted := False,
                    preferredMicEnabled := True, isDeafened := False\<rparr>
            else s2))"

text \<open>
  \<open>initializeMedia()\<close>: acquires the stream and switches its audio tracks off when muted or
  deafened; a rejected acquisition is rethrown.
\<close>

definition initializeMedia :: "media \<Rightarrow> app \<Rightarrow> error + app" where
  "initializeMedia m s =
     (case m of
        Denied \<Rightarrow> Inl MediaAcquisitionError
      | Granted st \<Rightarrow>
          Inr (s\<lparr>localStream :=
                   Some (if isMuted s \<or> isDeafened s then setAudioEnabled False st else st)\<rparr>))"

text \<open>
  \<open>joinVoiceChannel(channelName)\<close>: when already in a call it only shows the call interface
  again. Otherwise it sets \<open>inCall\<close>, shows the interface, acquires media and sends
  \<open>join-voice-channel\<close>; a failed acquisition alerts and force-leaves.
\<close>

definition joinVoiceChannel :: "string \<Rightarrow> media \<Rightarrow> app \<Rightarrow> app" where
  "joinVoiceChannel channelName m s =
     (if inCall s
      then (if callInterfaceHidden s then s\<lparr>callInterfaceHidden := False\<rparr> else s)
      else
        (let s1 = s\<lparr>inCall := True, callInterfaceHidden := False, callChannelName := channelName\<rparr>
         in case initializeMedia m s1 of
              Inr s2 \<Rightarrow>
                (if socketConnected s2
                 then s2\<lparr>emitted := emitted s2
                          @ [JoinVoiceChannel channelName (callerId (currentUser s2))]\<rparr>
                 else s2)
            | Inl e \<Rightarrow>
                leaveVoiceChannel True
                  (s1\<lparr>alerts := alerts s1
                        @ [''Error accessing camera/microphone. Please grant permissions.'']\<rparr>)))"

section \<open>Direct calls\<close>

text \<open>
  \<open>initiateCall(friendId, type)\<close>: acquires media first; in an audio call the video tracks
  are switched off. Then the call interface is shown, the call details are stored,
  \<open>initiate-call\<close> is sent when the socket is connected, and the flags are set. A rejected
  acquisition lands in the \<open>catch\<close>, which alerts.
\<close>

definition initiateCall :: "nat \<Rightarrow> string \<Rightarrow> media \<Rightarrow> app \<Rightarrow> app" where
  "initiateCall friendId type m s =
     (case m of
        Denied \<Rightarrow>
          s\<lparr>alerts := alerts s
              @ [''Failed to access camera/microphone. Please check permissions.'']\<rparr>
      | Granted st \<Rightarrow>
          s\<lparr>localStream := Some (if type = ''audio'' then setVideoEnabled False st else st),
            callInterfaceHidden := False,
            callChannelName := ''Calling...'',
            currentCallDetails := Some (OutgoingDetails friendId type),
            emitted := (if socketConnected s
                        then emitted s @ [InitiateCall friendId type (currentUser s)]
                        else emitted s),
            inCall := True,
            isVideoEnabled := (type = ''video''),
            isAudioEnabled := True\<rparr>)"

definition rejectCall :: "caller \<Rightarrow> app \<Rightarrow> app" where
  "rejectCall c s =
     (if socketConnected s then s\<lparr>emitted := emitted s @ [RejectCall (socketId c)]\<rparr> else s)"

text \<open>
  \<open>acceptCall(caller, type)\<close>: as \<open>initiateCall\<close>, with \<open>accept-call\<close> sent to the caller's
  socket and a connection opened toward the caller as non-initiator when none exists.
\<close>

definition acceptCall :: "caller \<Rightarrow> string \<Rightarrow> media \<Rightarrow> app \<Rightarrow> app" where
  "acceptCall c type m s =
     (case m of
        Denied \<Rightarrow>
          s\<lparr>alerts := alerts s
              @ [''Failed to access camera/microphone. Please check permissions.'']\<rparr>
      | Granted st \<Rightarrow>
          (let s1 = s\<lparr>localStream := Some (if type = ''audio'' then setVideoEnabled False st else st),
                      callInterfaceHidden := False,
                      callChannelName := ''Call with '' @ username c,
                      currentCallDetails := Some (IncomingDetails (socketId c) type),
                      emitted := (if socketConnected s
                                  then emitted s @ [AcceptCall (socketId c) (currentUser s)]
                                  else emitted s),
                      inCall := True,
                      isVideoEnabled := (type = ''video''),
                      isAudioEnabled := True\<rparr>
           in if map_of (peerConnections s1) (socketId c) = None
              then fst (createPeerConnection (socketId c) False s1)
              else s1))"

text \<open>
  \<open>showIncomingCall(caller, type)\<close>: shows the incoming-call box, binds the accept and
  reject buttons to this caller, and starts a 30000 ms timeout, kept in \<open>ringTimers\<close> with
  its delay. The source never clears the timeout; its callback (\<open>ringTimerFired\<close>) runs
  when the delay has passed and rejects the caller it was started for when the box is not
  hidden at that moment. An event that precedes \<open>ringTimerFired c\<close> in a run happened
  within the 30 seconds of \<open>c\<close>'s call.
\<close>

definition showIncomingCall :: "caller \<Rightarrow> string \<Rightarrow> app \<Rightarrow> app" where
  "showIncomingCall c type s =
     s\<lparr>incomingCallHidden := False,
       incomingCallButtons := Some (c, type),
       ringTimers := ringTimers s @ [(30000, c)]\<rparr>"

definition acceptBtnClick :: "media \<Rightarrow> app \<Rightarrow> app" where
  "acceptBtnClick m s =
     (case incomingCallButtons s of
        None \<Rightarrow> s
      | Some (c, type) \<Rightarrow> acceptCall c type m (s\<lparr>incomingCallHidden := True\<rparr>))"

definition rejectBtnClick :: "app \<Rightarrow> app" where
  "rejectBtnClick s =
     (case incomingCallButtons s of
        None \<Rightarrow> s
      | Some (c, type) \<Rightarrow> rejectCall c (s\<lparr>incomingCallHidden := True\<rparr>))"

definition ringTimerFired :: "caller \<Rightarrow> app \<Rightarrow> app" where
  "ringTimerFired c s =
     (let s1 = s\<lparr>ringTimers := remove1 (30000, c) (ringTimers s)\<rparr>
      in if \<not> incomingCallHidden s1
         then rejectCall c (s1\<lparr>incomingCallHidden := True\<rparr>)
         else s1)"

section \<open>Socket handlers (connectToSocketIO)\<close>

definition onUserJoinedVoice :: "socket_id \<Rightarrow> app \<Rightarrow> app" where
  "onUserJoinedVoice sid s = fst (createPeerConnection sid True s)"

definition onExistingVoiceUsers :: "socket_id list \<Rightarrow> app \<Rightarrow> app" where
  "onExistingVoiceUsers users s = fold (\<lambda>u t. fst (createPeerConnection u False t)) users s"

definition removeRemoteVideo :: "socket_id \<Rightarrow> app \<Rightarrow> app" where
  "removeRemoteVideo sid s = s\<lparr>remoteVideos := filter (\<lambda>(k, v). k \<noteq> sid) (remoteVideos s)\<rparr>"

definition closeConnection :: "socket_id \<Rightarrow> app \<Rightarrow> app" where
  "closeConnection sid s =
     (case map_of (peerConnections s) sid of
        None \<Rightarrow> s
      | Some pc \<Rightarrow> s\<lparr>closedConnections := closedConnections s @ [sid],
                     peerConnections := deleteConnection sid (peerConnections s)\<rparr>)"

definition onUserLeftVoice :: "socket_id \<Rightarrow> app \<Rightarrow> app" where
  "onUserLeftVoice sid s = removeRemoteVideo sid (closeConnection sid s)"

text \<open>
  The \<open>offer\<close> handler: opens a non-initiator connection when the sender has none, sets the
  offer as remote description, and answers. \<open>answer\<close> is what \<open>pc.createAnswer()\<close> resolves to.
\<close>

definition onOffer :: "socket_id \<Rightarrow> sdp \<Rightarrow> sdp \<Rightarrow> app \<Rightarrow> app" where
  "onOffer from offer answer s =
     (let s1 = (if map_of (peerConnections s) from = None
                then fst (createPeerConnection from False s) else s)
      in s1\<lparr>peerConnections :=
               updateConnection from
                 (\<lambda>p. p\<lparr>remoteDescription := Some offer, localDescription := Some answer\<rparr>)
                 (peerConnections s1),
             emitted := emitted s1 @ [Answer from answer]\<rparr>)"

definition onAnswer :: "socket_id \<Rightarrow> sdp \<Rightarrow> app \<Rightarrow> app" where
  "onAnswer from answer s =
     s\<lparr>peerConnections :=
         updateConnection from (\<lambda>p. p\<lparr>remoteDescription := Some answer\<rparr>) (peerConnections s)\<rparr>"

text \<open>
  The \<open>ice-candidate\<close> handler: \<open>if (pc && data.candidate) await pc.addIceCandidate(...)\<close>.
  The candidate of the message may be null (\<open>None\<close>).
\<close>

definition onIceCandidate :: "socket_id \<Rightarrow> candidate option \<Rightarrow> app \<Rightarrow> app" where
  "onIceCandidate from cand s =
     (case cand of
        None \<Rightarrow> s
      | Some c \<Rightarrow>
          s\<lparr>peerConnections :=
              updateConnection from
                (\<lambda>p. p\<lparr>addIceCandidateCalls := addIceCandidateCalls p @ [c]\<rparr>)
                (peerConnections s)\<rparr>)"

definition onIncomingCall :: "caller option \<Rightarrow> string \<Rightarrow> app \<Rightarrow> app" where
  "onIncomingCall from type s =
     (case from of None \<Rightarrow> s | Some c \<Rightarrow> showIncomingCall c type s)"

definition onCallAccepted :: "caller \<Rightarrow> app \<Rightarrow> app" where
  "onCallAccepted from s =
     (let s1 = s\<lparr>callChannelName := ''Connected with '' @ username from\<rparr>
      in if map_of (peerConnections s1) (socketId from) = None
         then fst (createPeerConnection (socketId from) True s1)
         else s1)"

definition onCallRejected :: "app \<Rightarrow> app" where
  "onCallRejected s =
     s\<lparr>alerts := alerts s @ [''Call was declined''],
       callInterfaceHidden := True,
       stoppedTracks := stoppedTracks s
          @ (case localStream s of None \<Rightarrow> [] | Some st \<Rightarrow> map trackId st),
       localStream := None,
       inCall := False\<rparr>"

definition onCallEnded :: "socket_id \<Rightarrow> app \<Rightarrow> app" where
  "onCallEnded from s =
     (let s1 = removeRemoteVideo from (closeConnection from s)
      in if peerConnections s1 = [] then leaveVoiceChannel True s1 else s1)"

text \<open>
  The close button of the call interface: in a direct call it sends \<open>end-call\<close> to every
  connected peer when the socket is connected, then force-leaves.
\<close>

definition closeCallBtnClick :: "app \<Rightarrow> app" where
  "closeCallBtnClick s =
     leaveVoiceChannel True
       (if currentCallDetails s \<noteq> None \<and> socketConnected s
        then s\<lparr>emitted := emitted s @ map EndCall (map fst (peerConnections s))\<rparr>
        else s)"

section \<open>Runs\<close>

text \<open>
  The script is single-threaded: handlers run one after the other. A run is a list of
  events, each handled to completion; an \<open>async\<close> handler is taken with the outcome of
  what it awaits. Screen sharing (\<open>toggleScreenShare\<close>) is not part of the model.
\<close>

datatype event =
    JoinVoiceChannelEv string media
  | LeaveVoiceChannelEv bool
  | CloseCallBtnEv
  | InitiateCallEv nat string media
  | AcceptBtnEv media
  | RejectBtnEv
  | RingTimerEv caller
  | SetMicrophoneEv bool
  | SetCameraEv bool
  | SetSpeakerEv bool
  | ToggleVideoEv
  | ToggleAudioEv
  | UserJoinedVoiceEv socket_id
  | ExistingVoiceUsersEv "socket_id list"
  | UserLeftVoiceEv socket_id
  | OfferEv socket_id sdp sdp
  | AnswerEv socket_id sdp
  | IceCandidateEv socket_id "candidate option"
  | IncomingCallEv "caller option" string
  | CallAcceptedEv caller
  | CallRejectedEv
  | CallEndedEv socket_id
  | OfferCreatedEv socket_id sdp
  | IceConnectionStateEv socket_id ice_state
  | TrackEv socket_id
  | SocketConnectedEv bool

fun step :: "event \<Rightarrow> app \<Rightarrow> app" where
  "step (JoinVoiceChannelEv c m) s = joinVoiceChannel c m s"
| "step (LeaveVoiceChannelEv force) s = leaveVoiceChannel force s"
| "step CloseCallBtnEv s = closeCallBtnClick s"
| "step (InitiateCallEv f t m) s = initiateCall f t m s"
| "step (AcceptBtnEv m) s = acceptBtnClick m s"
| "step RejectBtnEv s = rejectBtnClick s"
| "step (RingTimerEv c) s = ringTimerFired c s"
| "step (SetMicrophoneEv b) s = setMicrophoneState b False s"
| "step (SetCameraEv b) s = setCameraState b s"
| "step (SetSpeakerEv b) s = setSpeakerState b s"
| "step ToggleVideoEv s = toggleVideo s"
| "step ToggleAudioEv s = toggleAudio s"
| "step (UserJoinedVoiceEv r) s = onUserJoinedVoice r s"
| "step (ExistingVoiceUsersEv us) s = onExistingVoiceUsers us s"
| "step (UserLeftVoiceEv r) s = onUserLeftVoice r s"
| "step (OfferEv r off ans) s = onOffer r off ans s"
| "step (AnswerEv r ans) s = onAnswer r ans s"
| "step (IceCandidateEv r c) s = onIceCandidate r c s"
| "step (IncomingCallEv c t) s = onIncomingCall c t s"
| "step (CallAcceptedEv c) s = onCallAccepted c s"
| "step CallRejectedEv s = onCallRejected s"
| "step (CallEndedEv r) s = onCallEnded r s"
| "step (OfferCreatedEv r off) s = offerCreated r off s"
| "step (IceConnectionStateEv r st) s = onIceConnectionStateChange r st s"
| "step (TrackEv r) s = onTrack r s"
| "step (SocketConnectedEv b) s = s\<lparr>socketConnected := b\<rparr>"

definition run :: "event list \<Rightarrow> app \<Rightarrow> app" where
  "run evs s = fold step evs s"

section \<open>Observations and sample states\<close>

definition localAudioTracks :: "app \<Rightarrow> track list" where
  "localAudioTracks s = (case localStream s of None \<Rightarrow> [] | Some st \<Rightarrow> getAudioTracks st)"

definition roles :: "app \<Rightarrow> (socket_id \<times> bool) list" where
  "roles s = map (\<lambda>(k, pc). (k, createOfferCalled pc)) (peerConnections s)"

definition restarts :: "app \<Rightarrow> (socket_id \<times> nat) list" where
  "restarts s = map (\<lambda>(k, pc). (k, restartIceCalls pc)) (peerConnections s)"

definition candidateCalls :: "app \<Rightarrow> (socket_id \<times> sdp option \<times> candidate list) list" where
  "candidateCalls s =
     map (\<lambda>(k, pc). (k, remoteDescription pc, addIceCandidateCalls pc)) (peerConnections s)"

text \<open>
  The equality the synchroniser maintains: every local audio track is enabled exactly when
  the stored microphone preference is on and the user is not deafened; and outside
  deafening, \<open>isMuted\<close> is the negation of the preference.
\<close>

definition micInvariant :: "app \<Rightarrow> bool" where
  "micInvariant s =
     (list_all (\<lambda>t. enabled t = (preferredMicEnabled s \<and> \<not> isDeafened s)) (localAudioTracks s)
      \<and> (isDeafened s \<or> isMuted s = (\<not> preferredMicEnabled s)))"

text \<open>A stream as \<open>getUserMedia\<close> hands it out has every track enabled.\<close>

definition freshMedia :: "media \<Rightarrow> bool" where
  "freshMedia m = (case m of Denied \<Rightarrow> True | Granted st \<Rightarrow> list_all enabled st)"

fun acquiresForCall :: "event \<Rightarrow> bool" where
  "acquiresForCall (InitiateCallEv f t (Granted st)) = True"
| "acquiresForCall (AcceptBtnEv (Granted st)) = True"
| "acquiresForCall e = False"

fun freshEvent :: "event \<Rightarrow> bool" where
  "freshEvent (JoinVoiceChannelEv c m) = freshMedia m"
| "freshEvent e = True"

definition me :: caller where
  "me = \<lparr>callerId = 1, username = ''me'', socketId = ''s-me''\<rparr>"

definition ann :: caller where
  "ann = \<lparr>callerId = 2, username = ''ann'', socketId = ''s-ann''\<rparr>"

definition bob :: caller where
  "bob = \<lparr>callerId = 3, username = ''bob'', socketId = ''s-bob''\<rparr>"

definition mic :: track where
  "mic = \<lparr>trackId = 0, kind = Audio, enabled = True\<rparr>"

definition cam :: track where
  "cam = \<lparr>trackId = 1, kind = Video, enabled = True\<rparr>"

definition inChannel :: app where
  "inChannel = joinVoiceChannel ''lobby'' (Granted [mic, cam]) (initial me)"

definition withBob :: app where
  "withBob = onUserJoinedVoice ''s-bob'' inChannel"

definition mutedWithBob :: app where
  "mutedWithBob = setMicrophoneState False False (onTrack ''s-bob'' withBob)"

definition offline :: app where
  "offline = withBob\<lparr>socketConnected := False\<rparr>"

definition answering :: app where
  "answering = onOffer ''s-bob'' ''offer'' ''answer'' (initial me)"

definition deafened :: app where
  "deafened = setSpeakerState False (initial me)"

definition staleRing :: app where
  "staleRing = ringTimerFired ann (showIncomingCall bob ''audio''
     (acceptBtnClick (Granted [mic, cam]) (showIncomingCall ann ''video'' (initial me))))"

section \<open>Facts about the connection table\<close>

lemma map_of_updateConnection:
  "map_of (updateConnection k f pcs) r
     = (if r = k then map_option f (map_of pcs r) else map_of pcs r)"
  by (induction pcs) (auto simp: updateConnection_def)

lemma keys_updateConnection: "map fst (updateConnection k f pcs) = map fst pcs"
  by (induction pcs) (auto simp: updateConnection_def)

lemma createPeerConnection_frame:
  "localStream (fst (createPeerConnection r i s)) = localStream s"
  "emitted (fst (createPeerConnection r i s)) = emitted s"
  by (auto simp: createPeerConnection_def Let_def split: option.splits)

lemma map_of_createPeerConnection:
  "map_of (peerConnections (fst (createPeerConnection u i s))) r
     = (if r = u \<and> map_of (peerConnections s) u = None
        then Some (newPeerConnection (localStream s) i)
        else map_of (peerConnections s) r)"
  by (auto simp: createPeerConnection_def Let_def map_add_def split: option.splits)

lemma onExistingVoiceUsers_frame:
  "localStream (onExistingVoiceUsers users s) = localStream s
   \<and> emitted (onExistingVoiceUsers users s) = emitted s"
  unfolding onExistingVoiceUsers_def
  by (induction users arbitrary: s) (simp_all add: createPeerConnection_frame)

lemma map_of_onExistingVoiceUsers:
  "map_of (peerConnections (onExistingVoiceUsers users s)) r
     = (if r \<in> set users \<and> map_of (peerConnections s) r = None
        then Some (newPeerConnection (localStream s) False)
        else map_of (peerConnections s) r)"
  unfolding onExistingVoiceUsers_def
proof (induction users arbitrary: s)
  case Nil
  then show ?case by simp
next
  case (Cons u users)
  show ?case
    by (auto simp: Cons.IH map_of_createPeerConnection createPeerConnection_frame)
qed

lemma offerCreated_responder:
  "map_of (peerConnections s) r = Some pc \<Longrightarrow> \<not> createOfferCalled pc
     \<Longrightarrow> offerCreated r off s = s"
  by (simp add: offerCreated_def)

subsection \<open>The sample states\<close>

lemma inChannel_state:
  "inChannel = (initial me)\<lparr>inCall := True, callInterfaceHidden := False,
      callChannelName := ''lobby'', localStream := Some [mic, cam],
      emitted := [JoinVoiceChannel ''lobby'' 1]\<rparr>"
  by (simp add: inChannel_def joinVoiceChannel_def initial_def initializeMedia_def Let_def me_def)

lemma withBob_state:
  "withBob = inChannel\<lparr>peerConnections := [(''s-bob'', newPeerConnection (Some [mic, cam]) True)]\<rparr>"
  by (simp add: withBob_def onUserJoinedVoice_def createPeerConnection_def inChannel_state
      initial_def Let_def)

lemma sample_states_reachable:
  "inChannel = run [JoinVoiceChannelEv ''lobby'' (Granted [mic, cam])] (initial me)"
  "withBob = run [JoinVoiceChannelEv ''lobby'' (Granted [mic, cam]),
      UserJoinedVoiceEv ''s-bob''] (initial me)"
  "mutedWithBob = run [JoinVoiceChannelEv ''lobby'' (Granted [mic, cam]),
      UserJoinedVoiceEv ''s-bob'', TrackEv ''s-bob'', SetMicrophoneEv False] (initial me)"
  "offline = run [JoinVoiceChannelEv ''lobby'' (Granted [mic, cam]),
      UserJoinedVoiceEv ''s-bob'', SocketConnectedEv False] (initial me)"
  "answering = run [OfferEv ''s-bob'' ''offer'' ''answer''] (initial me)"
  "deafened = run [SetSpeakerEv False] (initial me)"
  "staleRing = run [IncomingCallEv (Some ann) ''video'', AcceptBtnEv (Granted [mic, cam]),
      IncomingCallEv (Some bob) ''audio'', RingTimerEv ann] (initial me)"
  by (simp_all add: run_def inChannel_def withBob_def mutedWithBob_def offline_def
      answering_def deafened_def staleRing_def onIncomingCall_def)

subsection \<open>Session ids stay unique along every run\<close>

lemma keys_createPeerConnection:
  "distinct (map fst (peerConnections s))
     \<Longrightarrow> distinct (map fst (peerConnections (fst (createPeerConnection r i s))))"
proof (cases "map_of (peerConnections s) r")
  case None
  assume d: "distinct (map fst (peerConnections s))"
  from None have "r \<notin> fst ` set (peerConnections s)"
    by (simp add: map_of_eq_None_iff)
  with d None show ?thesis
    by (simp add: createPeerConnection_def Let_def)
next
  case (Some a)
  assume "distinct (map fst (peerConnections s))"
  with Some show ?thesis
    by (simp add: createPeerConnection_def)
qed

lemma keys_onExistingVoiceUsers:
  "distinct (map fst (peerConnections s))
     \<Longrightarrow> distinct (map fst (peerConnections (onExistingVoiceUsers us s)))"
  unfolding onExistingVoiceUsers_def
  by (induction us arbitrary: s) (simp_all add: keys_createPeerConnection)

lemma keys_leaveVoiceChannel:
  "distinct (map fst (peerConnections s))
     \<Longrightarrow> distinct (map fst (peerConnections (leaveVoiceChannel force s)))"
  by (simp add: leaveVoiceChannel_def Let_def)

lemma keys_closeConnection:
  "distinct (map fst (peerConnections s))
     \<Longrightarrow> distinct (map fst (peerConnections (closeConnection r s)))"
  by (auto simp: closeConnection_def deleteConnection_def distinct_map_filter
      split: option.splits)

lemma keys_setMicrophoneState:
  "map fst (peerConnections (setMicrophoneState b k s)) = map fst (peerConnections s)"
  by (simp add: setMicrophoneState_def Let_def split: option.splits)

lemma keys_acceptCall:
  "distinct (map fst (peerConnections s))
     \<Longrightarrow> distinct (map fst (peerConnections (acceptCall c t m s)))"
proof (cases m)
  case Denied
  assume "distinct (map fst (peerConnections s))"
  with Denied show ?thesis by (simp add: acceptCall_def)
next
  case (Granted st)
  assume d: "distinct (map fst (peerConnections s))"
  let ?s1 = "s\<lparr>localStream := Some (if t = ''audio'' then setVideoEnabled False st else st),
                callInterfaceHidden := False,
                callChannelName := ''Call with '' @ username c,
                currentCallDetails := Some (IncomingDetails (socketId c) t),
                emitted := (if socketConnected s
                            then emitted s @ [AcceptCall (socketId c) (currentUser s)]
                            else emitted s),
                inCall := True,
                isVideoEnabled := (t = ''video''),
                isAudioEnabled := True\<rparr>"
  from d have d1: "distinct (map fst (peerConnections ?s1))" by simp
  have "acceptCall c t m s = (if map_of (peerConnections ?s1) (socketId c) = None
              then fst (createPeerConnection (socketId c) False ?s1)
              else ?s1)"
    using Granted by (simp add: acceptCall_def Let_def)
  then show ?thesis
    using d1 keys_createPeerConnection [OF d1] by presburger
qed

lemma keys_step:
  "distinct (map fst (peerConnections s)) \<Longrightarrow> distinct (map fst (peerConnections (step e s)))"
proof (cases e)
  case (JoinVoiceChannelEv c m)
  assume d: "distinct (map fst (peerConnections s))"
  then show ?thesis
    using JoinVoiceChannelEv
    by (cases m) (simp_all add: joinVoiceChannel_def initializeMedia_def Let_def
        leaveVoiceChannel_def)
next
  case (AcceptBtnEv m)
  assume d: "distinct (map fst (peerConnections s))"
  then have "distinct (map fst (peerConnections (s\<lparr>incomingCallHidden := True\<rparr>)))"
    by simp
  then show ?thesis
    using AcceptBtnEv d
    by (auto simp: acceptBtnClick_def keys_acceptCall split: option.splits)
next
  case (OfferEv r off ans)
  assume d: "distinct (map fst (peerConnections s))"
  then show ?thesis
    using OfferEv keys_createPeerConnection [OF d, of r False]
    by (simp add: onOffer_def Let_def keys_updateConnection)
next
  case (CallAcceptedEv c)
  assume d: "distinct (map fst (peerConnections s))"
  then have d1: "distinct (map fst (peerConnections
      (s\<lparr>callChannelName := ''Connected with '' @ username c\<rparr>)))"
    by simp
  show ?thesis
    using CallAcceptedEv d1 keys_createPeerConnection [OF d1]
    by (simp add: onCallAccepted_def Let_def)
next
  case (CallEndedEv r)
  assume d: "distinct (map fst (peerConnections s))"
  have "distinct (map fst (peerConnections (removeRemoteVideo r (closeConnection r s))))"
    using keys_closeConnection [OF d, of r]
    by (simp add: removeRemoteVideo_def)
  then show ?thesis
    using CallEndedEv
    by (simp add: onCallEnded_def Let_def keys_leaveVoiceChannel)
next
  case (UserLeftVoiceEv r)
  assume d: "distinct (map fst (peerConnections s))"
  show ?thesis
    using UserLeftVoiceEv keys_closeConnection [OF d, of r]
    by (simp add: onUserLeftVoice_def removeRemoteVideo_def)
next
  case CloseCallBtnEv
  assume d: "distinct (map fst (peerConnections s))"
  then show ?thesis
    using CloseCallBtnEv
    by (simp add: closeCallBtnClick_def leaveVoiceChannel_def Let_def)
qed (auto simp: keys_leaveVoiceChannel keys_createPeerConnection
      keys_onExistingVoiceUsers keys_setMicrophoneState
      onUserJoinedVoice_def initiateCall_def rejectBtnClick_def rejectCall_def
      ringTimerFired_def setCameraState_def setSpeakerState_def toggleVideo_def toggleAudio_def
      onAnswer_def onIceCandidate_def onIncomingCall_def showIncomingCall_def
      onCallRejected_def offerCreated_def onIceConnectionStateChange_def onTrack_def
      keys_updateConnection Let_def
      split: option.splits media.splits)

lemma keys_run:
  "distinct (map fst (peerConnections s)) \<Longrightarrow> distinct (map fst (peerConnections (run evs s)))"
  unfolding run_def
  by (induction evs arbitrary: s) (simp_all add: keys_step)

subsection \<open>Repeated connectivity failures\<close>

lemma updateConnection_restart_0:
  "updateConnection r (\<lambda>p. p\<lparr>restartIceCalls := restartIceCalls p + 0\<rparr>) pcs = pcs"
  by (induction pcs) (auto simp: updateConnection_def)

lemma updateConnection_restart_Suc:
  "updateConnection r (\<lambda>p. p\<lparr>restartIceCalls := restartIceCalls p + 1\<rparr>)
     (updateConnection r (\<lambda>p. p\<lparr>restartIceCalls := restartIceCalls p + n\<rparr>) pcs)
   = updateConnection r (\<lambda>p. p\<lparr>restartIceCalls := restartIceCalls p + Suc n\<rparr>) pcs"
  by (induction pcs) (auto simp: updateConnection_def)

lemma restart_funpow:
  "(onIceConnectionStateChange r IceFailed ^^ n) s
     = s\<lparr>peerConnections :=
           updateConnection r (\<lambda>p. p\<lparr>restartIceCalls := restartIceCalls p + n\<rparr>)
             (peerConnections s)\<rparr>"
proof (induction n)
  case 0
  show ?case
    by (simp only: funpow.simps id_apply updateConnection_restart_0) simp
next
  case (Suc n)
  have "(onIceConnectionStateChange r IceFailed ^^ Suc n) s
          = onIceConnectionStateChange r IceFailed
              ((onIceConnectionStateChange r IceFailed ^^ n) s)"
    by simp
  also have "\<dots> = onIceConnectionStateChange r IceFailed
        (s\<lparr>peerConnections :=
           updateConnection r (\<lambda>p. p\<lparr>restartIceCalls := restartIceCalls p + n\<rparr>)
             (peerConnections s)\<rparr>)"
    by (simp only: Suc.IH)
  also have "\<dots> = s\<lparr>peerConnections :=
           updateConnection r (\<lambda>p. p\<lparr>restartIceCalls := restartIceCalls p + Suc n\<rparr>)
             (peerConnections s)\<rparr>"
    unfolding onIceConnectionStateChange_def
    using updateConnection_restart_Suc [of r n "peerConnections s"] by simp
  finally show ?case .
qed

subsection \<open>The microphone equality along runs that take their media through a channel join\<close>

lemma audio_setAudioEnabled:
  "list_all (\<lambda>t. enabled t = b) (getAudioTracks (setAudioEnabled b st))"
  by (induction st) (auto simp: getAudioTracks_def setAudioEnabled_def)

lemma audio_setAudioEnabled_off:
  "list_all (\<lambda>t. \<not> enabled t) (getAudioTracks (setAudioEnabled False st))"
  using audio_setAudioEnabled [of False st] by simp

lemma audio_setAudioEnabled_on:
  "list_all enabled (getAudioTracks (setAudioEnabled True st))"
  using audio_setAudioEnabled [of True st] by simp

lemma audio_setAudioEnabled_mem:
  "t \<in> set (getAudioTracks (setAudioEnabled b st)) \<Longrightarrow> enabled t = b"
  by (auto simp: getAudioTracks_def setAudioEnabled_def split: if_splits)

lemma audio_setVideoEnabled:
  "getAudioTracks (setVideoEnabled b st) = getAudioTracks st"
  by (induction st) (auto simp: getAudioTracks_def setVideoEnabled_def)

lemma audio_fresh:
  "list_all enabled st \<Longrightarrow> list_all enabled (getAudioTracks st)"
  by (induction st) (auto simp: getAudioTracks_def)

lemma micInvariant_cong:
  "localStream s' = localStream s \<Longrightarrow> preferredMicEnabled s' = preferredMicEnabled s
   \<Longrightarrow> isDeafened s' = isDeafened s \<Longrightarrow> isMuted s' = isMuted s
   \<Longrightarrow> micInvariant s' = micInvariant s"
  by (simp add: micInvariant_def localAudioTracks_def)

lemma micInvariant_setMicrophoneState_pref:
  "micInvariant (setMicrophoneState b False s)"
  by (auto simp: micInvariant_def setMicrophoneState_def localAudioTracks_def Let_def
      audio_setAudioEnabled audio_setAudioEnabled_off audio_setAudioEnabled_on
      split: option.splits)

lemma micInvariant_setSpeakerState: "micInvariant (setSpeakerState b s)"
  by (auto simp: micInvariant_def setSpeakerState_def setMicrophoneState_def
      localAudioTracks_def Let_def audio_setAudioEnabled audio_setAudioEnabled_off
      audio_setAudioEnabled_on split: option.splits)

lemma micInvariant_leaveVoiceChannel:
  "micInvariant s \<Longrightarrow> micInvariant (leaveVoiceChannel force s)"
  by (auto simp: micInvariant_def leaveVoiceChannel_def localAudioTracks_def Let_def)

lemma micInvariant_joinVoiceChannel:
  "micInvariant s \<Longrightarrow> freshMedia m \<Longrightarrow> micInvariant (joinVoiceChannel c m s)"
proof (cases m)
  case Denied
  assume "micInvariant s"
  then show ?thesis
    using Denied
    by (auto simp: micInvariant_def joinVoiceChannel_def initializeMedia_def
        leaveVoiceChannel_def localAudioTracks_def Let_def)
next
  case (Granted st)
  assume i: "micInvariant s" and "freshMedia m"
  then have f: "list_all enabled (getAudioTracks st)"
    using Granted by (simp add: freshMedia_def audio_fresh)
  show ?thesis
  proof (cases "inCall s")
    case True
    with i show ?thesis
      by (auto simp: micInvariant_def joinVoiceChannel_def localAudioTracks_def)
  next
    case False
    with i f Granted show ?thesis
      by (auto simp: micInvariant_def joinVoiceChannel_def initializeMedia_def
          localAudioTracks_def Let_def audio_setAudioEnabled_off)
  qed
qed

lemma micInvariant_fold_create:
  "micInvariant (fold (\<lambda>u t. fst (createPeerConnection u i t)) us s) = micInvariant s"
proof (induction us arbitrary: s)
  case Nil
  show ?case by simp
next
  case (Cons u us)
  have "micInvariant (fst (createPeerConnection u i s)) = micInvariant s"
    by (rule micInvariant_cong)
      (auto simp: createPeerConnection_def Let_def split: option.splits)
  then show ?case by (simp add: Cons.IH)
qed

lemma micInvariant_closeConnection:
  "micInvariant (removeRemoteVideo r (closeConnection r s)) = micInvariant s"
  by (rule micInvariant_cong)
    (auto simp: removeRemoteVideo_def closeConnection_def split: option.splits)

lemma micInvariant_step:
  "micInvariant s \<Longrightarrow> \<not> acquiresForCall e \<Longrightarrow> freshEvent e \<Longrightarrow> micInvariant (step e s)"
proof (cases e)
  case (JoinVoiceChannelEv c m)
  assume "micInvariant s" "freshEvent e"
  then show ?thesis
    using JoinVoiceChannelEv by (simp add: micInvariant_joinVoiceChannel)
next
  case (LeaveVoiceChannelEv f)
  assume "micInvariant s"
  then show ?thesis
    using LeaveVoiceChannelEv by (simp add: micInvariant_leaveVoiceChannel)
next
  case CloseCallBtnEv
  assume i: "micInvariant s"
  have "micInvariant (s\<lparr>emitted := emitted s @ map EndCall (map fst (peerConnections s))\<rparr>)
          = micInvariant s"
    by (rule micInvariant_cong) simp_all
  with i show ?thesis
    using CloseCallBtnEv by (simp add: closeCallBtnClick_def micInvariant_leaveVoiceChannel)
next
  case (InitiateCallEv f t m)
  assume i: "micInvariant s" and "\<not> acquiresForCall e"
  then have "m = Denied" using InitiateCallEv by (cases m) simp_all
  with i show ?thesis
    using InitiateCallEv by (simp add: initiateCall_def micInvariant_def localAudioTracks_def)
next
  case (AcceptBtnEv m)
  assume i: "micInvariant s" and "\<not> acquiresForCall e"
  then have "m = Denied" using AcceptBtnEv by (cases m) simp_all
  with i show ?thesis
    using AcceptBtnEv
    by (auto simp: acceptBtnClick_def acceptCall_def micInvariant_def localAudioTracks_def
        split: option.splits)
next
  case (SetMicrophoneEv b)
  then show ?thesis by (simp add: micInvariant_setMicrophoneState_pref)
next
  case (SetSpeakerEv b)
  then show ?thesis by (simp add: micInvariant_setSpeakerState)
next
  case ToggleAudioEv
  then show ?thesis by (simp add: toggleAudio_def micInvariant_setMicrophoneState_pref)
next
  case (SetCameraEv b)
  assume i: "micInvariant s"
  then show ?thesis
    using SetCameraEv
    by (auto simp: setCameraState_def micInvariant_def localAudioTracks_def Let_def
        audio_setVideoEnabled split: option.splits)
next
  case ToggleVideoEv
  assume i: "micInvariant s"
  then show ?thesis
    using ToggleVideoEv
    by (auto simp: toggleVideo_def setCameraState_def micInvariant_def localAudioTracks_def
        Let_def audio_setVideoEnabled split: option.splits)
next
  case (ExistingVoiceUsersEv us)
  assume "micInvariant s"
  then show ?thesis
    using ExistingVoiceUsersEv by (simp add: onExistingVoiceUsers_def micInvariant_fold_create)
next
  case (UserJoinedVoiceEv r)
  assume "micInvariant s"
  then show ?thesis
    using UserJoinedVoiceEv micInvariant_fold_create [of True "[r]" s]
    by (simp add: onUserJoinedVoice_def)
next
  case (UserLeftVoiceEv r)
  assume "micInvariant s"
  then show ?thesis
    using UserLeftVoiceEv by (simp add: onUserLeftVoice_def micInvariant_closeConnection)
next
  case (CallEndedEv r)
  assume "micInvariant s"
  then show ?thesis
    using CallEndedEv
    by (simp add: onCallEnded_def Let_def micInvariant_closeConnection
        micInvariant_leaveVoiceChannel)
next
  case (OfferEv r off ans)
  assume i: "micInvariant s"
  have "micInvariant (onOffer r off ans s) = micInvariant s"
    by (rule micInvariant_cong)
      (auto simp: onOffer_def createPeerConnection_def Let_def split: option.splits)
  with i show ?thesis using OfferEv by simp
next
  case (CallAcceptedEv c)
  assume i: "micInvariant s"
  have "micInvariant (onCallAccepted c s) = micInvariant s"
    by (rule micInvariant_cong)
      (auto simp: onCallAccepted_def createPeerConnection_def Let_def split: option.splits)
  with i show ?thesis using CallAcceptedEv by simp
next
  case CallRejectedEv
  assume i: "micInvariant s"
  then show ?thesis
    using CallRejectedEv by (simp add: onCallRejected_def micInvariant_def localAudioTracks_def)
next
  case (RingTimerEv c)
  assume i: "micInvariant s"
  have "micInvariant (ringTimerFired c s) = micInvariant s"
    by (rule micInvariant_cong) (auto simp: ringTimerFired_def rejectCall_def Let_def)
  with i show ?thesis using RingTimerEv by simp
next
  case RejectBtnEv
  assume i: "micInvariant s"
  have "micInvariant (rejectBtnClick s) = micInvariant s"
    by (rule micInvariant_cong)
      (auto simp: rejectBtnClick_def rejectCall_def split: option.splits)
  with i show ?thesis using RejectBtnEv by simp
next
  case (AnswerEv r a)
  assume i: "micInvariant s"
  have "micInvariant (onAnswer r a s) = micInvariant s"
    by (rule micInvariant_cong) (simp_all add: onAnswer_def)
  with i show ?thesis using AnswerEv by simp
next
  case (IceCandidateEv r c)
  assume i: "micInvariant s"
  have "micInvariant (onIceCandidate r c s) = micInvariant s"
    by (rule micInvariant_cong) (auto simp: onIceCandidate_def split: option.splits)
  with i show ?thesis using IceCandidateEv by simp
next
  case (IncomingCallEv c t)
  assume i: "micInvariant s"
  have "micInvariant (onIncomingCall c t s) = micInvariant s"
    by (rule micInvariant_cong)
      (auto simp: onIncomingCall_def showIncomingCall_def split: option.splits)
  with i show ?thesis using IncomingCallEv by simp
next
  case (OfferCreatedEv r off)
  assume i: "micInvariant s"
  have "micInvariant (offerCreated r off s) = micInvariant s"
    by (rule micInvariant_cong) (auto simp: offerCreated_def split: option.splits)
  with i show ?thesis using OfferCreatedEv by simp
next
  case (IceConnectionStateEv r st)
  assume i: "micInvariant s"
  have "micInvariant (onIceConnectionStateChange r st s) = micInvariant s"
    by (rule micInvariant_cong) (simp_all add: onIceConnectionStateChange_def)
  with i show ?thesis using IceConnectionStateEv by simp
next
  case (TrackEv r)
  assume i: "micInvariant s"
  have "micInvariant (onTrack r s) = micInvariant s"
    by (rule micInvariant_cong) (simp_all add: onTrack_def)
  with i show ?thesis using TrackEv by simp
next
  case (SocketConnectedEv b)
  assume i: "micInvariant s"
  have "micInvariant (s\<lparr>socketConnected := b\<rparr>) = micInvariant s"
    by (rule micInvariant_cong) simp_all
  with i show ?thesis using SocketConnectedEv by simp
qed

text \<open>
  Along every run in which media is acquired only by joining a voice channel, the audio
  tracks follow the preference and the deafen flag. \<open>initiateCall\<close> and \<open>acceptCall\<close> are
  the two acquisitions this excludes.
\<close>

lemma micInvariant_run:
  "list_all (\<lambda>e. \<not> acquiresForCall e \<and> freshEvent e) evs
     \<Longrightarrow> micInvariant (run evs (initial u))"
proof -
  have "micInvariant s \<Longrightarrow> list_all (\<lambda>e. \<not> acquiresForCall e \<and> freshEvent e) evs
          \<Longrightarrow> micInvariant (fold step evs s)" for s
    by (induction evs arbitrary: s) (simp_all add: micInvariant_step)
  moreover have "micInvariant (initial u)"
    by (simp add: micInvariant_def initial_def localAudioTracks_def)
  ultimately show "list_all (\<lambda>e. \<not> acquiresForCall e \<and> freshEvent e) evs
     \<Longrightarrow> micInvariant (run evs (initial u))"
    by (simp add: run_def)
qed

subsection \<open>The ring timeout when no second call arrives\<close>

lemma ring_timer_single_call:
  "emitted (ringTimerFired c (showIncomingCall c t s))
     = (if socketConnected s then emitted s @ [RejectCall (socketId c)] else emitted s)"
  "emitted (ringTimerFired c (rejectBtnClick (showIncomingCall c t s)))
     = emitted (rejectBtnClick (showIncomingCall c t s))"
  "emitted (ringTimerFired c (acceptBtnClick m (showIncomingCall c t s)))
     = emitted (acceptBtnClick m (showIncomingCall c t s))"
  by (auto simp: ringTimerFired_def showIncomingCall_def rejectBtnClick_def acceptBtnClick_def
      rejectCall_def acceptCall_def createPeerConnection_def Let_def
      split: media.splits option.splits)

section \<open>Who offers in a voice channel\<close>

text \<open>
  C1, as the code has it: the roles are the other way round. For every member of the roster
  (\<open>existing-voice-users\<close>) that has no connection yet, the joining process opens one
  connection as responder: \<open>createOffer\<close> is not called on it, the offer continuation does
  nothing, and nothing is sent. For a member that joins later (\<open>user-joined-voice\<close>) and
  has no connection yet, the process opens the connection as initiator, and the resolved
  offer goes to that member.
\<close>

theorem voice_roles:
  "(map_of (peerConnections s) r = None \<longrightarrow>
      map_of (peerConnections (onUserJoinedVoice r s)) r
        = Some (newPeerConnection (localStream s) True)
      \<and> emitted (offerCreated r off (onUserJoinedVoice r s)) = emitted s @ [Offer r off])
   \<and> (\<forall>u \<in> set users. map_of (peerConnections s) u = None \<longrightarrow>
      map_of (peerConnections (onExistingVoiceUsers users s)) u
        = Some (newPeerConnection (localStream s) False)
      \<and> offerCreated u off (onExistingVoiceUsers users s) = onExistingVoiceUsers users s)
   \<and> emitted (onExistingVoiceUsers users s) = emitted s"
proof (intro conjI impI ballI)
  assume n: "map_of (peerConnections s) r = None"
  then show "map_of (peerConnections (onUserJoinedVoice r s)) r
        = Some (newPeerConnection (localStream s) True)"
    by (simp add: onUserJoinedVoice_def map_of_createPeerConnection)
  then show "emitted (offerCreated r off (onUserJoinedVoice r s)) = emitted s @ [Offer r off]"
    by (simp add: offerCreated_def newPeerConnection_def onUserJoinedVoice_def
        createPeerConnection_frame)
next
  fix u
  assume u: "u \<in> set users" and n: "map_of (peerConnections s) u = None"
  then show m: "map_of (peerConnections (onExistingVoiceUsers users s)) u
        = Some (newPeerConnection (localStream s) False)"
    by (simp add: map_of_onExistingVoiceUsers)
  show "offerCreated u off (onExistingVoiceUsers users s) = onExistingVoiceUsers users s"
    by (rule offerCreated_responder [OF m]) (simp add: newPeerConnection_def)
next
  show "emitted (onExistingVoiceUsers users s) = emitted s"
    by (simp add: onExistingVoiceUsers_frame)
qed

text \<open>C1, the amended statement at the joined state, with roster \<open>[ann]\<close> and \<open>bob\<close> joining.\<close>

theorem voice_roles_witness:
  "map_of (peerConnections inChannel) ''s-bob'' = None
   \<and> map_of (peerConnections (onUserJoinedVoice ''s-bob'' inChannel)) ''s-bob''
       = Some (newPeerConnection (localStream inChannel) True)
   \<and> emitted (offerCreated ''s-bob'' ''sdp'' (onUserJoinedVoice ''s-bob'' inChannel))
       = emitted inChannel @ [Offer ''s-bob'' ''sdp'']
   \<and> map_of (peerConnections (onExistingVoiceUsers [''s-ann''] inChannel)) ''s-ann''
       = Some (newPeerConnection (localStream inChannel) False)"
proof -
  have n: "peerConnections inChannel = []"
    by (simp add: inChannel_state initial_def)
  show ?thesis
    using voice_roles [of inChannel "''s-bob''" "''sdp''" "[''s-ann'']"] n by simp
qed

text \<open>
  C1 as stated fails: after joining, a roster of two members gives two connections on which
  \<open>createOffer\<close> was not called (responder role), and a member joining afterwards gives a
  connection on which it was (initiator role).
\<close>

theorem voice_roles_counterexample:
  "roles (onExistingVoiceUsers [''s-ann'', ''s-bob''] inChannel)
     = [(''s-ann'', False), (''s-bob'', False)]
   \<and> roles (onUserJoinedVoice ''s-bob'' inChannel) = [(''s-bob'', True)]"
  by (simp add: roles_def inChannel_state initial_def
      onExistingVoiceUsers_def onUserJoinedVoice_def createPeerConnection_def
      newPeerConnection_def Let_def)

section \<open>Audio tracks of a freshly acquired call stream\<close>

text \<open>
  C2 at a failing input: the user deafens while idle and then starts an audio call (or
  accepts one). The stream that \<open>getUserMedia\<close> hands out has its audio track enabled, and
  neither \<open>initiateCall\<close> nor \<open>acceptCall\<close> switches it off, so the track is enabled while
  \<open>isDeafened\<close> holds: the equality with \<open>preferredMicEnabled \<and> \<not> isDeafened\<close> is broken.
  Joining a voice channel in the same state goes through \<open>initializeMedia\<close>, which does
  switch the track off.
\<close>

theorem initiateCall_ignores_deafen:
  "isDeafened (initiateCall 2 ''audio'' (Granted [mic, cam]) deafened)
   \<and> map enabled (localAudioTracks (initiateCall 2 ''audio'' (Granted [mic, cam]) deafened))
       = [True]
   \<and> isDeafened (acceptBtnClick (Granted [mic, cam]) (showIncomingCall ann ''audio'' deafened))
   \<and> map enabled (localAudioTracks
        (acceptBtnClick (Granted [mic, cam]) (showIncomingCall ann ''audio'' deafened)))
       = [True]
   \<and> map enabled (localAudioTracks (joinVoiceChannel ''lobby'' (Granted [mic, cam]) deafened))
       = [False]"
  by (simp add: deafened_def initiateCall_def setSpeakerState_def setMicrophoneState_def
      initial_def joinVoiceChannel_def initializeMedia_def setAudioEnabled_def
      setVideoEnabled_def localAudioTracks_def getAudioTracks_def mic_def cam_def Let_def
      acceptBtnClick_def showIncomingCall_def acceptCall_def createPeerConnection_def)

section \<open>Remote ICE candidates\<close>

text \<open>
  C3, as the code has it: nothing is buffered. A candidate for an id that has a connection
  is handed to \<open>addIceCandidate\<close> at once, whether or not the remote description is set; a
  null candidate changes nothing, and a candidate for an id without a connection is dropped.
  The handlers that set the remote description (\<open>answer\<close>, \<open>offer\<close>) hand over no candidate:
  the list of \<open>addIceCandidate\<close> calls of every connection is as before, and empty on the
  connection that \<open>offer\<close> creates.
\<close>

theorem ice_candidate_immediate:
  "map_of (peerConnections (onIceCandidate r (Some c) s)) r
     = map_option (\<lambda>p. p\<lparr>addIceCandidateCalls := addIceCandidateCalls p @ [c]\<rparr>)
         (map_of (peerConnections s) r)
   \<and> onIceCandidate r None s = s
   \<and> map_option addIceCandidateCalls (map_of (peerConnections (onAnswer r' answer s)) r)
       = map_option addIceCandidateCalls (map_of (peerConnections s) r)
   \<and> map_option addIceCandidateCalls (map_of (peerConnections (onOffer r' offer answer s)) r)
       = (if r = r' \<and> map_of (peerConnections s) r = None then Some []
          else map_option addIceCandidateCalls (map_of (peerConnections s) r))"
proof (intro conjI)
  show "map_of (peerConnections (onIceCandidate r (Some c) s)) r
     = map_option (\<lambda>p. p\<lparr>addIceCandidateCalls := addIceCandidateCalls p @ [c]\<rparr>)
         (map_of (peerConnections s) r)"
    by (simp add: onIceCandidate_def map_of_updateConnection)
  show "onIceCandidate r None s = s"
    by (simp add: onIceCandidate_def)
  show "map_option addIceCandidateCalls (map_of (peerConnections (onAnswer r' answer s)) r)
       = map_option addIceCandidateCalls (map_of (peerConnections s) r)"
    by (simp add: onAnswer_def map_of_updateConnection option.map_comp comp_def)
  show "map_option addIceCandidateCalls (map_of (peerConnections (onOffer r' offer answer s)) r)
       = (if r = r' \<and> map_of (peerConnections s) r = None then Some []
          else map_option addIceCandidateCalls (map_of (peerConnections s) r))"
    by (auto simp: onOffer_def Let_def map_of_updateConnection map_of_createPeerConnection
        option.map_comp comp_def newPeerConnection_def)
qed

text \<open>C3, the amended statement at the connection toward \<open>bob\<close>, which has no remote description.\<close>

theorem ice_candidate_immediate_witness:
  "map_of (peerConnections (onIceCandidate ''s-bob'' (Some ''c1'') withBob)) ''s-bob''
     = Some ((newPeerConnection (Some [mic, cam]) True)\<lparr>addIceCandidateCalls := [''c1'']\<rparr>)"
  using ice_candidate_immediate [where r = "''s-bob''" and c = "''c1''" and s = withBob]
  by (simp add: withBob_state newPeerConnection_def)

text \<open>
  C3 as stated fails: on a connection whose remote description is not set, the candidate is
  handed to \<open>addIceCandidate\<close> immediately; when the answer then sets the remote
  description, no buffered candidate is flushed (the calls stay as they were).
\<close>

theorem ice_candidate_counterexample:
  "candidateCalls withBob = [(''s-bob'', None, [])]
   \<and> candidateCalls (onIceCandidate ''s-bob'' (Some ''c1'') withBob)
       = [(''s-bob'', None, [''c1''])]
   \<and> candidateCalls (onAnswer ''s-bob'' ''sdp'' (onIceCandidate ''s-bob'' (Some ''c1'') withBob))
       = [(''s-bob'', Some ''sdp'', [''c1''])]"
  by (simp add: candidateCalls_def withBob_state onIceCandidate_def onAnswer_def
      newPeerConnection_def updateConnection_def)

section \<open>Connectivity failure\<close>

text \<open>
  C4, as the code has it: every \<open>failed\<close> state change calls \<open>restartIce\<close> once more, without
  a bound: after \<open>n\<close> failures the connection has \<open>n\<close> more restarts. Nothing else
  happens: the connection stays in the table, the table keeps its ids, and the rest of the
  state (messages sent, alerts, \<open>inCall\<close>) is as before, so no connection-lost signal is
  raised.
\<close>

theorem ice_failure_restarts_every_time:
  "map_of (peerConnections ((onIceConnectionStateChange r IceFailed ^^ n) s)) r
     = map_option (\<lambda>p. p\<lparr>restartIceCalls := restartIceCalls p + n\<rparr>)
         (map_of (peerConnections s) r)
   \<and> ((onIceConnectionStateChange r IceFailed ^^ n) s)\<lparr>peerConnections := peerConnections s\<rparr> = s
   \<and> map fst (peerConnections ((onIceConnectionStateChange r IceFailed ^^ n) s))
       = map fst (peerConnections s)"
  by (simp add: restart_funpow map_of_updateConnection keys_updateConnection)

text \<open>C4, the amended statement at three failures of the connection toward \<open>bob\<close>.\<close>

theorem ice_failure_restarts_every_time_witness:
  "map_of (peerConnections ((onIceConnectionStateChange ''s-bob'' IceFailed ^^ 3) withBob)) ''s-bob''
     = Some ((newPeerConnection (Some [mic, cam]) True)\<lparr>restartIceCalls := 3\<rparr>)"
  using ice_failure_restarts_every_time [where r = "''s-bob''" and n = 3 and s = withBob]
  by (simp add: withBob_state newPeerConnection_def)

text \<open>
  C4 as stated fails: a failure that persists after the first restart is answered by a
  second restart, and the state apart from the connection is unchanged, so nothing is
  raised to the owner.
\<close>

theorem ice_failure_counterexample:
  "restarts withBob = [(''s-bob'', 0)]
   \<and> restarts (onIceConnectionStateChange ''s-bob'' IceFailed
        (onIceConnectionStateChange ''s-bob'' IceFailed withBob)) = [(''s-bob'', 2)]
   \<and> (onIceConnectionStateChange ''s-bob'' IceFailed
        (onIceConnectionStateChange ''s-bob'' IceFailed withBob))
          \<lparr>peerConnections := peerConnections withBob\<rparr> = withBob"
  by (simp add: restarts_def withBob_state onIceConnectionStateChange_def updateConnection_def
      newPeerConnection_def)

section \<open>Idempotent open\<close>

text \<open>
  C5: at most one connection is stored per remote socket id at any time, and open is
  idempotent. Opening with an id that has a connection changes nothing and returns the
  stored connection; opening twice is the same as opening once; and after every run from
  the initial state the ids in the table are pairwise different.
\<close>

theorem createPeerConnection_idempotent:
  "(map_of (peerConnections s) r = Some pc \<longrightarrow> createPeerConnection r i s = (s, pc))
   \<and> createPeerConnection r j (fst (createPeerConnection r i s)) = createPeerConnection r i s
   \<and> distinct (map fst (peerConnections (run evs (initial u))))"
proof (intro conjI impI)
  assume "map_of (peerConnections s) r = Some pc"
  then show "createPeerConnection r i s = (s, pc)"
    by (simp add: createPeerConnection_def)
next
  show "createPeerConnection r j (fst (createPeerConnection r i s)) = createPeerConnection r i s"
  proof (cases "map_of (peerConnections s) r")
    case None
    then show ?thesis
      by (simp add: createPeerConnection_def Let_def map_add_def)
  next
    case (Some a)
    then show ?thesis
      by (simp add: createPeerConnection_def)
  qed
next
  have "distinct (map fst (peerConnections (initial u)))"
    by (simp add: initial_def)
  then show "distinct (map fst (peerConnections (run evs (initial u))))"
    by (rule keys_run)
qed

text \<open>C5 at the state with a connection toward \<open>bob\<close>: opening \<open>bob\<close> again, as responder.\<close>

theorem createPeerConnection_idempotent_witness:
  "map_of (peerConnections withBob) ''s-bob'' = Some (newPeerConnection (Some [mic, cam]) True)
   \<and> createPeerConnection ''s-bob'' False withBob
       = (withBob, newPeerConnection (Some [mic, cam]) True)
   \<and> map fst (peerConnections (fst (createPeerConnection ''s-bob'' False withBob))) = [''s-bob'']"
proof -
  have m: "map_of (peerConnections withBob) ''s-bob''
     = Some (newPeerConnection (Some [mic, cam]) True)"
    by (simp add: withBob_state)
  show ?thesis
    using createPeerConnection_idempotent
      [where s = withBob and r = "''s-bob''" and i = False
         and pc = "newPeerConnection (Some [mic, cam]) True"] m
    by (simp add: withBob_state)
qed

section \<open>The ring timeout\<close>

text \<open>
  C6 at a failing input: \<open>ann\<close> calls and the user accepts within the 30 seconds; \<open>bob\<close>
  calls, which shows the incoming-call box again; then \<open>ann\<close>'s timeout fires. The box is
  not hidden, so the callback hides it and sends \<open>reject-call\<close> to \<open>ann\<close>, whose call was
  accepted, while the buttons still belong to \<open>bob\<close>'s call.
\<close>

theorem stale_ring_timer_rejects_accepted_call:
  "emitted staleRing = [AcceptCall ''s-ann'' me, RejectCall ''s-ann'']
   \<and> incomingCallHidden staleRing
   \<and> incomingCallButtons staleRing = Some (bob, ''audio'')
   \<and> ringTimers staleRing = [(30000, bob)]"
  by (simp add: staleRing_def ringTimerFired_def showIncomingCall_def acceptBtnClick_def
      acceptCall_def rejectCall_def createPeerConnection_def initial_def ann_def bob_def Let_def)

section \<open>Deafening and undeafening\<close>

text \<open>
  C7: from any state, with stored microphone preference \<open>m = preferredMicEnabled s\<close>:
  deafening keeps the preference, sets the deafen flag, switches every local audio track
  off and sets the volume of every remote video to 0; undeafening afterwards keeps the
  preference, clears the flag, sets every local audio track (and \<open>isAudioEnabled\<close>) to
  exactly \<open>m\<close>, and sets the volume of every remote video to 1.
\<close>

theorem deafen_round_trip:
  "preferredMicEnabled (setSpeakerState False s) = preferredMicEnabled s
   \<and> isDeafened (setSpeakerState False s)
   \<and> (\<forall>t \<in> set (localAudioTracks (setSpeakerState False s)). \<not> enabled t)
   \<and> (\<forall>v \<in> set (remoteVideos (setSpeakerState False s)). snd v = 0)
   \<and> preferredMicEnabled (setSpeakerState True (setSpeakerState False s)) = preferredMicEnabled s
   \<and> \<not> isDeafened (setSpeakerState True (setSpeakerState False s))
   \<and> isAudioEnabled (setSpeakerState True (setSpeakerState False s)) = preferredMicEnabled s
   \<and> (\<forall>t \<in> set (localAudioTracks (setSpeakerState True (setSpeakerState False s))).
         enabled t = preferredMicEnabled s)
   \<and> (\<forall>v \<in> set (remoteVideos (setSpeakerState True (setSpeakerState False s))). snd v = 1)"
  by (auto simp: setSpeakerState_def setMicrophoneState_def localAudioTracks_def Let_def
      dest: audio_setAudioEnabled_mem split: option.splits)

text \<open>
  C7 in a channel with one remote video, the microphone switched off by the user before
  deafening: the track stays off after the round trip, the volume goes 0 and back to 1.
\<close>

theorem deafen_round_trip_witness:
  "map enabled (localAudioTracks mutedWithBob) = [False]
   \<and> \<not> preferredMicEnabled mutedWithBob
   \<and> map enabled (localAudioTracks (setSpeakerState False mutedWithBob)) = [False]
   \<and> map snd (remoteVideos (setSpeakerState False mutedWithBob)) = [0]
   \<and> \<not> preferredMicEnabled (setSpeakerState False mutedWithBob)
   \<and> map enabled (localAudioTracks (setSpeakerState True (setSpeakerState False mutedWithBob)))
       = [False]
   \<and> map snd (remoteVideos (setSpeakerState True (setSpeakerState False mutedWithBob))) = [1]"
  using deafen_round_trip [where s = mutedWithBob]
  by (simp add: mutedWithBob_def withBob_state inChannel_state initial_def onTrack_def
      setMicrophoneState_def setSpeakerState_def setAudioEnabled_def localAudioTracks_def
      getAudioTracks_def mic_def cam_def Let_def)

section \<open>Leaving\<close>

text \<open>
  C8, as the code has it: a non-forced leave only hides the call interface (and does nothing
  when not in a call), so the connections and the local stream are as before. A forced
  leave does nothing when \<open>inCall\<close> is not set. When it is set, a forced leave clears it,
  stops the tracks of the local (and screen) stream and drops the stream, closes every
  connection and empties the table, and sends \<open>leave-voice-channel\<close> when the socket is
  connected, and nothing when it is not.
\<close>

theorem leaveVoiceChannel_effects:
  "leaveVoiceChannel False s = (if inCall s then s\<lparr>callInterfaceHidden := True\<rparr> else s)
   \<and> (\<not> inCall s \<longrightarrow> leaveVoiceChannel True s = s)
   \<and> (inCall s \<longrightarrow>
        \<not> inCall (leaveVoiceChannel True s)
        \<and> localStream (leaveVoiceChannel True s) = None
        \<and> stoppedTracks (leaveVoiceChannel True s)
            = stoppedTracks s
              @ (case localStream s of None \<Rightarrow> [] | Some st \<Rightarrow> map trackId st)
              @ (case screenStream s of None \<Rightarrow> [] | Some st \<Rightarrow> map trackId st)
        \<and> peerConnections (leaveVoiceChannel True s) = []
        \<and> closedConnections (leaveVoiceChannel True s)
            = closedConnections s @ map fst (peerConnections s)
        \<and> emitted (leaveVoiceChannel True s)
            = (if socketConnected s then emitted s @ [LeaveVoiceChannel (currentChannel s)]
               else emitted s))"
  by (simp add: leaveVoiceChannel_def Let_def)

text \<open>
  C8, the amended statement in a channel with a connection toward \<open>bob\<close>, and at the
  initial state, where \<open>inCall\<close> is not set.
\<close>

theorem leaveVoiceChannel_effects_witness:
  "inCall withBob
   \<and> leaveVoiceChannel False withBob = withBob\<lparr>callInterfaceHidden := True\<rparr>
   \<and> peerConnections (leaveVoiceChannel False withBob) = peerConnections withBob
   \<and> localStream (leaveVoiceChannel True withBob) = None
   \<and> stoppedTracks (leaveVoiceChannel True withBob) = [0, 1]
   \<and> peerConnections (leaveVoiceChannel True withBob) = []
   \<and> closedConnections (leaveVoiceChannel True withBob) = [''s-bob'']
   \<and> emitted (leaveVoiceChannel True withBob)
       = [JoinVoiceChannel ''lobby'' 1, LeaveVoiceChannel ''general'']
   \<and> \<not> inCall (initial me)
   \<and> leaveVoiceChannel True (initial me) = initial me"
proof -
  have a: "inCall withBob" and b: "\<not> inCall (initial me)"
    by (simp_all add: withBob_state inChannel_state initial_def)
  show ?thesis
    using leaveVoiceChannel_effects [where s = withBob]
      leaveVoiceChannel_effects [where s = "initial me"] a b
    by (simp add: withBob_state inChannel_state initial_def mic_def cam_def)
qed

text \<open>
  C8 as stated fails in two ways. In a channel, with the socket disconnected, a forced leave
  sends nothing to the relay. And with \<open>inCall\<close> not set, a connection opened by an
  incoming offer survives a forced leave: it is neither closed nor removed.
\<close>

theorem forced_leave_counterexample:
  "inCall offline
   \<and> emitted (leaveVoiceChannel True offline) = emitted offline
   \<and> map fst (peerConnections answering) = [''s-bob'']
   \<and> map fst (peerConnections (leaveVoiceChannel True answering)) = [''s-bob'']
   \<and> closedConnections (leaveVoiceChannel True answering) = []"
  by (simp add: offline_def answering_def withBob_state inChannel_state initial_def
      leaveVoiceChannel_def onOffer_def createPeerConnection_def updateConnection_def Let_def)

section \<open>Failed acquisition when starting a call\<close>

text \<open>
  C9: when media acquisition fails, \<open>initiateCall\<close> changes nothing but the alert shown to
  the user: \<open>inCall\<close>, the call interface, the call details, the messages sent, the local
  stream and the connection table are as before.
\<close>

theorem initiateCall_denied:
  "initiateCall friendId type Denied s
     = s\<lparr>alerts := alerts s @ [''Failed to access camera/microphone. Please check permissions.'']\<rparr>
   \<and> inCall (initiateCall friendId type Denied s) = inCall s
   \<and> callInterfaceHidden (initiateCall friendId type Denied s) = callInterfaceHidden s
   \<and> currentCallDetails (initiateCall friendId type Denied s) = currentCallDetails s
   \<and> emitted (initiateCall friendId type Denied s) = emitted s
   \<and> localStream (initiateCall friendId type Denied s) = localStream s
   \<and> peerConnections (initiateCall friendId type Denied s) = peerConnections s"
  by (simp add: initiateCall_def)

text \<open>C9 at the initial (idle) state: not in a call, no stream, no connection, nothing sent.\<close>

theorem initiateCall_denied_witness:
  "\<not> inCall (initiateCall 2 ''video'' Denied (initial me))
   \<and> callInterfaceHidden (initiateCall 2 ''video'' Denied (initial me))
   \<and> emitted (initiateCall 2 ''video'' Denied (initial me)) = []
   \<and> localStream (initiateCall 2 ''video'' Denied (initial me)) = None
   \<and> peerConnections (initiateCall 2 ''video'' Denied (initial me)) = []
   \<and> alerts (initiateCall 2 ''video'' Denied (initial me))
       = [''Failed to access camera/microphone. Please check permissions.'']"
  using initiateCall_denied [where friendId = 2 and type = "''video''" and s = "initial me"]
  by (simp add: initial_def)

section \<open>Joining while in a call\<close>

text \<open>
  C10: with \<open>inCall\<close> set, \<open>joinVoiceChannel\<close> leaves the whole state as it is, whatever the
  media service would answer, except that the call interface is shown.
\<close>

theorem joinVoiceChannel_inCall:
  "inCall s \<Longrightarrow> joinVoiceChannel channelName m s = s\<lparr>callInterfaceHidden := False\<rparr>"
  by (simp add: joinVoiceChannel_def)

text \<open>
  C10 in a channel whose interface was hidden by a non-forced leave: joining another channel
  gives back the state before the leave.
\<close>

theorem joinVoiceChannel_inCall_witness:
  "inCall (leaveVoiceChannel False withBob)
   \<and> callInterfaceHidden (leaveVoiceChannel False withBob)
   \<and> joinVoiceChannel ''other'' (Granted [mic, cam]) (leaveVoiceChannel False withBob) = withBob"
proof -
  have a: "inCall (leaveVoiceChannel False withBob)"
    by (simp add: leaveVoiceChannel_def withBob_state inChannel_state initial_def Let_def)
  show ?thesis
    using joinVoiceChannel_inCall [OF a, of "''other''" "Granted [mic, cam]"] a
    by (simp add: leaveVoiceChannel_def withBob_state inChannel_state initial_def Let_def)
qed

end
